theory Spec2Isabelle
  imports Main "HOL-Library.AList"
begin

section \<open>Python strings\<close>

text \<open>
  Strings and byte strings of the handlers are \<open>string\<close> (a list of 8-bit characters).
  The string methods the handlers call are written out here; the case mappings cover the
  ASCII letters, which is what header names and the \<open>Upgrade\<close> token are made of.
\<close>

definition lower_char :: "char \<Rightarrow> char" where
  "lower_char c =
     (case map_of (zip ''ABCDEFGHIJKLMNOPQRSTUVWXYZ'' ''abcdefghijklmnopqrstuvwxyz'') c of
        Some d \<Rightarrow> d
      | None \<Rightarrow> c)"

definition upper_char :: "char \<Rightarrow> char" where
  "upper_char c =
     (case map_of (zip ''abcdefghijklmnopqrstuvwxyz'' ''ABCDEFGHIJKLMNOPQRSTUVWXYZ'') c of
        Some d \<Rightarrow> d
      | None \<Rightarrow> c)"

text \<open>\<^verbatim>\<open>s.lower()\<close>\<close>

definition py_lower :: "string \<Rightarrow> string" where
  "py_lower s = map lower_char s"

text \<open>\<^verbatim>\<open>s.capitalize()\<close>: first character upper case, the rest lower case.\<close>

definition py_capitalize :: "string \<Rightarrow> string" where
  "py_capitalize s = (case s of [] \<Rightarrow> [] | c # cs \<Rightarrow> upper_char c # map lower_char cs)"

text \<open>\<^verbatim>\<open>s.startswith(c)\<close> for a one-character prefix.\<close>

definition startswith :: "string \<Rightarrow> char \<Rightarrow> bool" where
  "startswith s c = (case s of [] \<Rightarrow> False | x # _ \<Rightarrow> x = c)"

text \<open>\<^verbatim>\<open>s.split(c)\<close>: always at least one piece.\<close>

fun py_split :: "char \<Rightarrow> string \<Rightarrow> string list" where
  "py_split c [] = [[]]"
| "py_split c (x # xs) =
     (if x = c then [] # py_split c xs
      else (case py_split c xs of [] \<Rightarrow> [[x]] | w # ws \<Rightarrow> (x # w) # ws))"

text \<open>\<^verbatim>\<open>sep.join(pieces)\<close>\<close>

fun py_join :: "string \<Rightarrow> string list \<Rightarrow> string" where
  "py_join sep [] = []"
| "py_join sep [w] = w"
| "py_join sep (w # ws) = w @ sep @ py_join sep ws"

text \<open>\<^verbatim>\<open>str(n)\<close> of a non-negative integer: its decimal digits.\<close>

function str_nat :: "nat \<Rightarrow> string" where
  "str_nat n =
     (if n < 10 then [''0123456789'' ! n]
      else str_nat (n div 10) @ [''0123456789'' ! (n mod 10)])"
  by pat_completeness auto
termination
  by (relation "measure id") auto

declare str_nat.simps [simp del]

text \<open>
  The port reaches the handlers either as the text the URL route captured
  (\<open>LocalProxyHandler\<close>) or as the integer read back from the socket
  (\<open>SuperviseAndProxyHandler.port\<close>); \<^verbatim>\<open>str(port)\<close> and \<^verbatim>\<open>'{port}'.format(port=port)\<close>
  render both.
\<close>

datatype port = PortInt nat | PortStr string

fun str_port :: "port \<Rightarrow> string" where
  "str_port (PortInt n) = str_nat n"
| "str_port (PortStr s) = s"

section \<open>tornado.httputil.HTTPHeaders\<close>

text \<open>
  A header object is an insertion-ordered dictionary from the normalised header name to the
  list of its values. Every operation normalises the name it is given
  (\<^verbatim>\<open>"-".join(w.capitalize() for w in name.split("-"))\<close>).
\<close>

type_synonym http_headers = "(string \<times> string list) list"

definition normalize_header :: "string \<Rightarrow> string" where
  "normalize_header name = py_join ''-'' (map py_capitalize (py_split (CHR ''-'') name))"

text \<open>\<^verbatim>\<open>name in headers\<close>\<close>

definition hdr_contains :: "http_headers \<Rightarrow> string \<Rightarrow> bool" where
  "hdr_contains H name = (map_of H (normalize_header name) \<noteq> None)"

text \<open>\<^verbatim>\<open>headers.get(name, default)\<close>: the values of the name joined by commas.\<close>

definition hdr_get :: "http_headers \<Rightarrow> string \<Rightarrow> string \<Rightarrow> string" where
  "hdr_get H name dflt =
     (case map_of H (normalize_header name) of
        None \<Rightarrow> dflt
      | Some vs \<Rightarrow> py_join '','' vs)"

text \<open>\<^verbatim>\<open>headers[name] = value\<close>: the name keeps its place if it is there already.\<close>

definition hdr_setitem :: "http_headers \<Rightarrow> string \<Rightarrow> string \<Rightarrow> http_headers" where
  "hdr_setitem H name v = AList.update (normalize_header name) [v] H"

text \<open>\<^verbatim>\<open>del headers[name]\<close>, called by the handler only after \<^verbatim>\<open>name in headers\<close>.\<close>

definition hdr_delitem :: "http_headers \<Rightarrow> string \<Rightarrow> http_headers" where
  "hdr_delitem H name = AList.delete (normalize_header name) H"

text \<open>\<^verbatim>\<open>headers.add(name, value)\<close>: one more value for the name.\<close>

definition hdr_add :: "http_headers \<Rightarrow> string \<Rightarrow> string \<Rightarrow> http_headers" where
  "hdr_add H name v =
     (let norm_name = normalize_header name in
      case map_of H norm_name of
        Some vs \<Rightarrow> AList.update norm_name (vs @ [v]) H
      | None \<Rightarrow> hdr_setitem H norm_name v)"

text \<open>\<^verbatim>\<open>headers.get_all()\<close>: every (name, value) pair, names in dictionary order.\<close>

definition hdr_get_all :: "http_headers \<Rightarrow> (string \<times> string) list" where
  "hdr_get_all H = concat (map (\<lambda>(name, vs). map (Pair name) vs) H)"

text \<open>\<^verbatim>\<open>headers.copy()\<close> and \<^verbatim>\<open>HTTPHeaders(headers)\<close>: a new object, filled by \<open>add\<close>.\<close>

definition hdr_copy :: "http_headers \<Rightarrow> http_headers" where
  "hdr_copy H = foldl (\<lambda>n (name, v). hdr_add n name v) [] (hdr_get_all H)"

text \<open>
  What every header object satisfies: no name occurs twice, and every name is normalised and
  has at least one value.
\<close>

definition hdr_inv :: "http_headers \<Rightarrow> bool" where
  "hdr_inv H =
     (distinct (map fst H) \<and>
      list_all (\<lambda>(name, vs). normalize_header name = name \<and> vs \<noteq> []) H)"

section \<open>Requests, responses and errors\<close>

text \<open>The exceptions that leave the handlers.\<close>

datatype error =
    ValueError string
  | HTTPError int string    \<comment> \<open>\<^verbatim>\<open>web.HTTPError(status_code, log_message)\<close>\<close>
  | Raised string           \<comment> \<open>an exception raised by the process primitive or the HTTP client\<close>

text \<open>The inbound request (\<^verbatim>\<open>self.request\<close>).\<close>

record server_request =
  req_method :: string
  req_query :: string
  req_headers :: http_headers
  req_body :: string

text \<open>The outbound \<^verbatim>\<open>httpclient.HTTPRequest\<close>; the body is \<open>None\<close> when absent.\<close>

record client_request =
  rq_url :: string
  rq_method :: string
  rq_body :: "string option"
  rq_headers :: http_headers
  rq_follow_redirects :: bool

text \<open>
  \<^verbatim>\<open>response.error\<close> of a fetched response: an exception whose type is exactly
  \<^verbatim>\<open>httpclient.HTTPError\<close> (the backend answered with an error status), or any other
  exception, kept with its \<^verbatim>\<open>str()\<close>.
\<close>

datatype client_error = ClientHTTPError | OtherError string

record client_response =
  rsp_code :: int
  rsp_reason :: string
  rsp_headers :: http_headers
  rsp_body :: string
  rsp_error :: "client_error option"

section \<open>LocalProxyHandler\<close>

text \<open>
  The handler object: its configuration (\<open>proxy_base\<close>, \<open>rewrite\<close>, \<open>base_url\<close>), the
  inbound request, the shared \<^verbatim>\<open>settings['api_last_activity']\<close>, and the response under
  construction (status, reason, headers, written chunks). A reason of \<open>None\<close> stands for
  the standard phrase of the status code, which \<^verbatim>\<open>set_status\<close> looks up when it is
  given no reason.
\<close>

record handler =
  proxy_base :: string
  rewrite :: string
  base_url :: string
  request :: server_request
  api_last_activity :: "nat option"
  status_code :: int
  reason :: "string option"
  out_headers :: http_headers
  write_buffer :: "string list"

text \<open>\<^verbatim>\<open>self.set_status(status_code, reason=None)\<close>\<close>

definition set_status :: "handler \<Rightarrow> int \<Rightarrow> string option \<Rightarrow> handler" where
  "set_status h code r = h\<lparr>status_code := code, reason := r\<rparr>"

text \<open>\<^verbatim>\<open>self.write(chunk)\<close>\<close>

definition write_chunk :: "handler \<Rightarrow> string \<Rightarrow> handler" where
  "write_chunk h chunk = h\<lparr>write_buffer := write_buffer h @ [chunk]\<rparr>"

text \<open>\<^verbatim>\<open>self.add_header(name, value)\<close>\<close>

definition add_header :: "handler \<Rightarrow> string \<Rightarrow> string \<Rightarrow> handler" where
  "add_header h name v = h\<lparr>out_headers := hdr_add (out_headers h) name v\<rparr>"

text \<open>\<^verbatim>\<open>_record_activity\<close>; \<open>now\<close> is what \<^verbatim>\<open>utcnow()\<close> returns at the call.\<close>

definition record_activity :: "nat \<Rightarrow> handler \<Rightarrow> handler" where
  "record_activity now h = h\<lparr>api_last_activity := Some now\<rparr>"

text \<open>
  \<^verbatim>\<open>url_path_join\<close> is imported from \<^verbatim>\<open>.utils\<close>; the functions below take it as the
  parameter \<open>join\<close>, applied to the list of its arguments.
\<close>

type_synonym path_join = "string list \<Rightarrow> string"

text \<open>\<^verbatim>\<open>_get_context_path\<close>\<close>

definition get_context_path :: "path_join \<Rightarrow> handler \<Rightarrow> port \<Rightarrow> error + string" where
  "get_context_path join h port =
     (if proxy_base h \<noteq> [] then Inr (join [base_url h, proxy_base h])
      else if rewrite h \<in> set [''/'', ''''] then Inr (join [base_url h, ''proxy'', str_port port])
      else Inl (ValueError (''Unsupported rewrite: '' @ [CHR 0x22] @ rewrite h @ [CHR 0x22])))"

text \<open>\<^verbatim>\<open>proxy_request_headers\<close> and \<^verbatim>\<open>proxy_request_options\<close>\<close>

definition proxy_request_headers :: "handler \<Rightarrow> http_headers" where
  "proxy_request_headers h = hdr_copy (req_headers (request h))"

definition proxy_request_options :: bool where
  "proxy_request_options = False"

text \<open>\<^verbatim>\<open>_build_proxy_request\<close>\<close>

definition build_proxy_request ::
  "path_join \<Rightarrow> handler \<Rightarrow> port \<Rightarrow> string \<Rightarrow> string option \<Rightarrow> error + client_request" where
  "build_proxy_request join h port proxied_path body =
     (case get_context_path join h port of
        Inl e \<Rightarrow> Inl e
      | Inr context_path \<Rightarrow>
          let client_path =
                (if rewrite h \<noteq> [] then proxied_path else join [context_path, proxied_path]);
              client_uri = ''http://localhost'' @ '':'' @ str_port port @ client_path;
              client_uri =
                (if req_query (request h) \<noteq> [] then client_uri @ ''?'' @ req_query (request h)
                 else client_uri);
              headers = proxy_request_headers h;
              headers =
                (if rewrite h \<noteq> []
                 then hdr_setitem (hdr_setitem headers ''X-Forwarded-Context'' context_path)
                        ''X-ProxyContextPath'' context_path
                 else headers)
          in Inr \<lparr>rq_url = client_uri, rq_method = req_method (request h), rq_body = body,
                  rq_headers = headers, rq_follow_redirects = proxy_request_options\<rparr>)"

text \<open>
  \<^verbatim>\<open>proxy\<close>, its first lines: the \<open>Proxy-Connection\<close> header is dropped, activity is
  recorded, and an \<open>Upgrade: websocket\<close> request sets status 500 (and goes on).
\<close>

definition proxy_entry :: "nat \<Rightarrow> handler \<Rightarrow> handler" where
  "proxy_entry now h =
     (let h = (if hdr_contains (req_headers (request h)) ''Proxy-Connection''
               then h\<lparr>request := (request h)\<lparr>req_headers :=
                        hdr_delitem (req_headers (request h)) ''Proxy-Connection''\<rparr>\<rparr>
               else h);
          h = record_activity now h
      in if py_lower (hdr_get (req_headers (request h)) ''Upgrade'' []) = ''websocket''
         then set_status h 500 None
         else h)"

text \<open>
  The body to send: an empty inbound body becomes the empty byte string for \<open>POST\<close> and
  \<open>None\<close> for every other method.
\<close>

definition proxy_body :: "server_request \<Rightarrow> string option" where
  "proxy_body rq =
     (if req_body rq \<noteq> [] then Some (req_body rq)
      else if req_method rq = ''POST'' then Some []
      else None)"

text \<open>
  \<^verbatim>\<open>proxy\<close>, up to the fetch: the handler at that point and the request handed to
  \<^verbatim>\<open>client.fetch\<close>, or the exception of \<^verbatim>\<open>_build_proxy_request\<close>.
\<close>

definition proxy_prepare ::
  "path_join \<Rightarrow> nat \<Rightarrow> handler \<Rightarrow> port \<Rightarrow> string \<Rightarrow> error + handler \<times> client_request" where
  "proxy_prepare join now h port proxied_path =
     (let h = proxy_entry now h;
          body = proxy_body (request h)
      in case build_proxy_request join h port proxied_path body of
           Inl e \<Rightarrow> Inl e
         | Inr req \<Rightarrow> Inr (h, req))"

text \<open>The names \<^verbatim>\<open>proxy\<close> does not copy from the backend's response.\<close>

definition stripped_headers :: "string list" where
  "stripped_headers = [''Content-Length'', ''Transfer-Encoding'', ''Content-Encoding'', ''Connection'']"

text \<open>\<^verbatim>\<open>proxy\<close>, from the fetched response on.\<close>

definition proxy_relay :: "nat \<Rightarrow> handler \<Rightarrow> client_response \<Rightarrow> handler" where
  "proxy_relay now h response =
     (let h = record_activity now h in
      if rsp_error response \<noteq> None \<and> rsp_error response \<noteq> Some ClientHTTPError
      then
        (let h = set_status h 500 None in
         write_chunk h (case rsp_error response of Some (OtherError s) \<Rightarrow> s | _ \<Rightarrow> []))
      else
        (let h = set_status h (rsp_code response) (Some (rsp_reason response));
             h = h\<lparr>out_headers := []\<rparr>;
             h = foldl (\<lambda>h (header, v).
                         if header \<notin> set stripped_headers then add_header h header v else h)
                   h (hdr_get_all (rsp_headers response))
         in if rsp_body response \<noteq> [] then write_chunk h (rsp_body response) else h))"

text \<open>
  \<^verbatim>\<open>proxy\<close> as a whole, for an authenticated caller. \<open>fetch\<close> is
  \<^verbatim>\<open>await client.fetch(req, raise_error=False)\<close>: it returns a response object, which may
  carry an error, or it raises. Which failures come back inside the response and which are
  raised is the HTTP client's choice (tornado before 6.0 returns them all, from 6.0 on it
  raises every failure that is not an HTTP status). Nothing in \<^verbatim>\<open>proxy\<close> catches what the
  fetch raises. \<open>t1\<close> and \<open>t2\<close> are the clock readings of the two activity records.
\<close>

definition proxy ::
  "path_join \<Rightarrow> (client_request \<Rightarrow> error + client_response) \<Rightarrow> nat \<Rightarrow> nat \<Rightarrow> handler \<Rightarrow> port
     \<Rightarrow> string \<Rightarrow> error + handler" where
  "proxy join fetch t1 t2 h port proxied_path =
     (case proxy_prepare join t1 h port proxied_path of
        Inl e \<Rightarrow> Inl e
      | Inr (h', req) \<Rightarrow>
          (case fetch req of
             Inl e \<Rightarrow> Inl e
           | Inr response \<Rightarrow> Inr (proxy_relay t2 h' response)))"

section \<open>The WebSocket side of LocalProxyHandler\<close>

text \<open>
  \<^verbatim>\<open>open\<close> computes the backend URI and takes the inbound request's headers, then schedules
  \<^verbatim>\<open>start_websocket_connection\<close>, which builds
  \<^verbatim>\<open>httpclient.HTTPRequest(url=client_uri, headers=headers)\<close> (method \<open>GET\<close>, no body,
  redirects followed: the defaults) and connects with it. \<open>ws_open\<close> is that request.
\<close>

definition ws_open :: "handler \<Rightarrow> port \<Rightarrow> string \<Rightarrow> client_request" where
  "ws_open h port proxied_path =
     (let proxied_path =
            (if \<not> startswith proxied_path (CHR ''/'') then ''/'' @ proxied_path else proxied_path);
          client_uri = ''ws://127.0.0.1'' @ '':'' @ str_port port @ proxied_path;
          client_uri =
            (if req_query (request h) \<noteq> [] then client_uri @ ''?'' @ req_query (request h)
             else client_uri);
          headers = req_headers (request h)
      in \<lparr>rq_url = client_uri, rq_method = ''GET'', rq_body = None, rq_headers = headers,
           rq_follow_redirects = True\<rparr>)"

text \<open>
  \<^verbatim>\<open>pingable_ws_connect\<close> replaces the request's headers by a copy
  (\<^verbatim>\<open>httputil.HTTPHeaders(request.headers)\<close>) and connects to the request's URL.
\<close>

definition pingable_ws_connect :: "client_request \<Rightarrow> client_request" where
  "pingable_ws_connect req = req\<lparr>rq_headers := hdr_copy (rq_headers req)\<rparr>"

section \<open>SuperviseAndProxyHandler\<close>

text \<open>
  The \<^verbatim>\<open>state\<close> dictionary of a target: the key \<open>proc\<close> (the process handle) and the
  key \<open>port\<close>, each present or not. The body of \<^verbatim>\<open>ensure_process\<close> runs while holding
  \<^verbatim>\<open>state['proc_lock']\<close>, so the calls on one target run one after the other: a call is
  one step on the state.
\<close>

record supervised_process =
  sp_name :: string
  sp_cmd :: "string list"
  sp_env :: "string \<rightharpoonup> string"
  sp_ready_timeout :: nat

record proc_state =
  st_proc :: "supervised_process option"
  st_port :: "nat option"

text \<open>
  What the handler is configured with: the command of \<^verbatim>\<open>get_cmd()\<close> (a subclass
  provides it) and the environment of the proxy's own process (\<^verbatim>\<open>os.environ\<close>).
\<close>

record supervisor =
  sv_cmd :: "string list"
  sv_environ :: "string \<rightharpoonup> string"

definition process_name :: string where
  "process_name = ''process''"

definition get_env :: "string \<rightharpoonup> string" where
  "get_env = Map.empty"

definition get_timeout :: nat where
  "get_timeout = 5"

text \<open>
  What the process primitive does during one call, which the handler does not decide:
  whether \<^verbatim>\<open>start()\<close> raises, what \<^verbatim>\<open>ready()\<close> returns or raises and whether it ran the
  readiness function (which reads \<^verbatim>\<open>self.port\<close>), whether \<^verbatim>\<open>kill()\<close> raises, and the
  port the operating system hands out when one is allocated.
\<close>

record proc_env =
  start_raises :: "error option"
  ready_result :: "error + bool"
  ready_probed :: bool
  kill_raises :: "error option"
  free_port :: nat

text \<open>The calls made on the process primitive, in order.\<close>

datatype event =
    Start supervised_process
  | Ready supervised_process
  | Kill supervised_process

text \<open>The \<^verbatim>\<open>port\<close> property: allocated on first use, then cached.\<close>

definition get_port :: "nat \<Rightarrow> proc_state \<Rightarrow> nat \<times> proc_state" where
  "get_port os_port st =
     (case st_port st of
        None \<Rightarrow> (os_port, st\<lparr>st_port := Some os_port\<rparr>)
      | Some p \<Rightarrow> (p, st))"

text \<open>
  \<^verbatim>\<open>ensure_process\<close>: the result (\<open>Inl\<close> the exception that propagates), the state after
  the call and the calls made on the process primitive.
\<close>

definition ensure_process ::
  "supervisor \<Rightarrow> proc_env \<Rightarrow> proc_state \<Rightarrow> (error + unit) \<times> proc_state \<times> event list" where
  "ensure_process sv env st =
     (case st_proc st of
        Some _ \<Rightarrow> (Inr (), st, [])
      | None \<Rightarrow>
          let cmd = sv_cmd sv;
              server_env = sv_environ sv ++ get_env;
              timeout = get_timeout;
              proc = \<lparr>sp_name = process_name, sp_cmd = cmd, sp_env = server_env,
                      sp_ready_timeout = timeout\<rparr>;
              st = st\<lparr>st_proc := Some proc\<rparr>
          in (case start_raises env of
                Some e \<Rightarrow> (Inl e, st\<lparr>st_proc := None\<rparr>, [Start proc])
              | None \<Rightarrow>
                  (let st = (if ready_probed env then snd (get_port (free_port env) st) else st)
                   in (case ready_result env of
                         Inl e \<Rightarrow> (Inl e, st\<lparr>st_proc := None\<rparr>, [Start proc, Ready proc])
                       | Inr True \<Rightarrow> (Inr (), st, [Start proc, Ready proc])
                       | Inr False \<Rightarrow>
                           (case kill_raises env of
                              Some e \<Rightarrow>
                                (Inl e, st\<lparr>st_proc := None\<rparr>,
                                 [Start proc, Ready proc, Kill proc])
                            | None \<Rightarrow>
                                (Inl (HTTPError 500
                                        (''could not start '' @ process_name @ '' in time'')),
                                 st\<lparr>st_proc := None\<rparr>,
                                 [Start proc, Ready proc, Kill proc]))))))"

text \<open>
  A sequence of calls on one target, each with what the process primitive does during it:
  the results in order, the final state and all calls made on the primitive.
\<close>

fun ensure_calls ::
  "supervisor \<Rightarrow> proc_env list \<Rightarrow> proc_state \<Rightarrow> (error + unit) list \<times> proc_state \<times> event list" where
  "ensure_calls sv [] st = ([], st, [])"
| "ensure_calls sv (env # envs) st =
     (case ensure_process sv env st of
        (r, st', evs) \<Rightarrow>
          (case ensure_calls sv envs st' of
             (rs, st'', evs') \<Rightarrow> (r # rs, st'', evs @ evs')))"

definition is_start :: "event \<Rightarrow> bool" where
  "is_start ev = (case ev of Start _ \<Rightarrow> True | _ \<Rightarrow> False)"

text \<open>
  \<^verbatim>\<open>SuperviseAndProxyHandler.proxy\<close>: the path gets its leading slash, the process is
  ensured, and the request goes to \<^verbatim>\<open>LocalProxyHandler.proxy\<close> with the target's own port.
\<close>

definition supervise_proxy ::
  "path_join \<Rightarrow> (client_request \<Rightarrow> error + client_response) \<Rightarrow> nat \<Rightarrow> nat \<Rightarrow> supervisor
     \<Rightarrow> proc_env \<Rightarrow> handler \<Rightarrow> proc_state \<Rightarrow> string
     \<Rightarrow> (error + handler) \<times> proc_state \<times> event list" where
  "supervise_proxy join fetch t1 t2 sv env h st path =
     (let path = (if \<not> startswith path (CHR ''/'') then ''/'' @ path else path)
      in case ensure_process sv env st of
           (Inl e, st', evs) \<Rightarrow> (Inl e, st', evs)
         | (Inr _, st', evs) \<Rightarrow>
             (case get_port (free_port env) st' of
                (p, st'') \<Rightarrow> (proxy join fetch t1 t2 h (PortInt p) path, st'', evs)))"

text \<open>
  \<^verbatim>\<open>SuperviseAndProxyHandler.open\<close>: the process is ensured, then the WebSocket is opened
  to the target's own port.
\<close>

definition supervise_open ::
  "supervisor \<Rightarrow> proc_env \<Rightarrow> handler \<Rightarrow> proc_state \<Rightarrow> string
     \<Rightarrow> (error + client_request) \<times> proc_state \<times> event list" where
  "supervise_open sv env h st path =
     (case ensure_process sv env st of
        (Inl e, st', evs) \<Rightarrow> (Inl e, st', evs)
      | (Inr _, st', evs) \<Rightarrow>
          (case get_port (free_port env) st' of
             (p, st'') \<Rightarrow> (Inr (ws_open h (PortInt p) path), st'', evs)))"

text \<open>
  Modelled from the spec: \<^verbatim>\<open>url_path_join\<close> of \<^verbatim>\<open>qpod/proxy/utils.py\<close>, which is not
  among the sources. The spec writes its results as \<open>{base}/{proxy_base}\<close> and
  \<open>{base}/proxy/{port}\<close>: the pieces with a slash between them.
\<close>

definition url_path_join :: path_join where
  "url_path_join pieces = py_join ''/'' pieces"

section \<open>Example inputs\<close>

text \<open>
  A \<open>POST\<close> request with an empty body, the query \<open>x=1\<close> and an
  \<open>Upgrade: WebSocket\<close> header, at a handler in passthrough mode under the base URL
  \<open>/app\<close> with no proxy base.
\<close>

definition example_request :: server_request where
  "example_request =
     \<lparr>req_method = ''POST'', req_query = ''x=1'',
      req_headers = [(''Upgrade'', [''WebSocket'']), (''Proxy-Connection'', [''keep-alive''])],
      req_body = []\<rparr>"

definition example_handler :: handler where
  "example_handler =
     \<lparr>proxy_base = [], rewrite = ''/'', base_url = ''/app'', request = example_request,
      api_last_activity = None, status_code = 200, reason = Some ''OK'',
      out_headers = [(''Server'', [''TornadoServer''])], write_buffer = []\<rparr>"

text \<open>That handler when the request is fetched, and the request fetched.\<close>

definition example_prepared :: handler where
  "example_prepared =
     example_handler\<lparr>request := example_request\<lparr>req_headers := [(''Upgrade'', [''WebSocket''])]\<rparr>,
                      api_last_activity := Some 7, status_code := 500, reason := None\<rparr>"

definition example_outbound :: client_request where
  "example_outbound =
     \<lparr>rq_url = ''http://localhost:9000/foo?x=1'', rq_method = ''POST'', rq_body = Some [],
      rq_headers = [(''Upgrade'', [''WebSocket'']),
                    (''X-Forwarded-Context'', [''/app/proxy/9000'']),
                    (''X-Proxycontextpath'', [''/app/proxy/9000''])],
      rq_follow_redirects = False\<rparr>"

text \<open>The same handler in absolute mode, and with a rewrite mode that is neither.\<close>

definition example_absolute :: handler where
  "example_absolute = example_handler\<lparr>rewrite := []\<rparr>"

definition example_unsupported :: handler where
  "example_unsupported = example_handler\<lparr>rewrite := ''foo''\<rparr>"

definition example_unsupported_based :: handler where
  "example_unsupported_based = example_handler\<lparr>rewrite := ''foo'', proxy_base := ''lab''\<rparr>"

text \<open>
  A backend that answers 404 with framing headers and two cookies, and a fetch that fails
  because the connection is refused.
\<close>

definition example_response :: client_response where
  "example_response =
     \<lparr>rsp_code = 404, rsp_reason = ''Not Found'',
      rsp_headers = [(''Content-Length'', [''9'']), (''Set-Cookie'', [''a=1'', ''b=2'']),
                     (''Connection'', [''close'']), (''Content-Type'', [''text/plain''])],
      rsp_body = ''not found'', rsp_error = Some ClientHTTPError\<rparr>"

definition example_refused :: client_response where
  "example_refused =
     \<lparr>rsp_code = 599, rsp_reason = ''Unknown'', rsp_headers = [], rsp_body = [],
      rsp_error = Some (OtherError ''Connection refused'')\<rparr>"

text \<open>
  Three HTTP clients: one whose fetch returns the 404 response, one that returns the
  refused connection inside a response, and one that raises it.
\<close>

definition fetch_not_found :: "client_request \<Rightarrow> error + client_response" where
  "fetch_not_found req = Inr example_response"

definition fetch_refused :: "client_request \<Rightarrow> error + client_response" where
  "fetch_refused req = Inr example_refused"

definition fetch_raises :: "client_request \<Rightarrow> error + client_response" where
  "fetch_raises req = Inl (Raised ''Connection refused'')"

text \<open>A target with no process and no port yet, and three behaviours of the primitive.\<close>

definition example_supervisor :: supervisor where
  "example_supervisor = \<lparr>sv_cmd = [''serve''], sv_environ = Map.empty\<rparr>"

definition example_state :: proc_state where
  "example_state = \<lparr>st_proc = None, st_port = None\<rparr>"

definition example_process :: supervised_process where
  "example_process =
     \<lparr>sp_name = ''process'', sp_cmd = [''serve''], sp_env = Map.empty, sp_ready_timeout = 5\<rparr>"

definition example_running :: proc_state where
  "example_running = \<lparr>st_proc = Some example_process, st_port = Some 9000\<rparr>"

definition env_ready :: proc_env where
  "env_ready =
     \<lparr>start_raises = None, ready_result = Inr True, ready_probed = True, kill_raises = None,
      free_port = 9000\<rparr>"

definition env_not_ready :: proc_env where
  "env_not_ready = env_ready\<lparr>ready_result := Inr False\<rparr>"

definition env_spawn_fails :: proc_env where
  "env_spawn_fails = env_ready\<lparr>start_raises := Some (Raised ''No such file or directory'')\<rparr>"

section \<open>Facts about header objects\<close>

text \<open>
  Adding the pairs of a well-formed header object to a new one, in \<open>get_all\<close> order,
  rebuilds the object: a copy of a header object is the object.
\<close>

lemma update_absent: "k \<notin> fst ` set al \<Longrightarrow> AList.update k v al = al @ [(k, v)]"
  by (induction al) auto

lemma update_last_key:
  "k \<notin> fst ` set al \<Longrightarrow> AList.update k v (al @ [(k, w)]) = al @ [(k, v)]"
  by (induction al) auto

lemma map_of_last_key:
  "k \<notin> fst ` set al \<Longrightarrow> map_of (al @ [(k, w)]) k = Some w"
  by (induction al) auto

lemma hdr_add_last_key:
  assumes "normalize_header k = k" "k \<notin> fst ` set acc"
  shows "hdr_add (acc @ [(k, ws)]) k v = acc @ [(k, ws @ [v])]"
  unfolding hdr_add_def Let_def assms(1)
  by (simp only: map_of_last_key [OF assms(2)] update_last_key [OF assms(2)] option.case)

lemma hdr_add_more:
  assumes "normalize_header k = k" "k \<notin> fst ` set acc"
  shows "foldl (\<lambda>n (name, v). hdr_add n name v) (acc @ [(k, ws)]) (map (Pair k) vs)
           = acc @ [(k, ws @ vs)]"
proof (induction vs arbitrary: ws)
  case Nil
  show ?case by simp
next
  case (Cons v vs)
  have "foldl (\<lambda>n (name, v). hdr_add n name v) (acc @ [(k, ws)]) (map (Pair k) (v # vs))
          = foldl (\<lambda>n (name, v). hdr_add n name v) (acc @ [(k, ws @ [v])]) (map (Pair k) vs)"
    by (simp only: list.map foldl_Cons prod.case hdr_add_last_key [OF assms])
  also have "\<dots> = acc @ [(k, (ws @ [v]) @ vs)]"
    by (rule Cons.IH)
  finally show ?case by simp
qed

lemma hdr_add_first:
  assumes "normalize_header k = k" "k \<notin> fst ` set acc"
  shows "hdr_add acc k v = acc @ [(k, [v])]"
proof -
  from assms(2) have "map_of acc k = None"
    by (simp add: map_of_eq_None_iff)
  with assms show ?thesis
    by (simp add: hdr_add_def hdr_setitem_def update_absent)
qed

lemma hdr_add_values:
  assumes "normalize_header k = k" "k \<notin> fst ` set acc" "vs \<noteq> []"
  shows "foldl (\<lambda>n (name, v). hdr_add n name v) acc (map (Pair k) vs) = acc @ [(k, vs)]"
proof (cases vs)
  case Nil
  with assms(3) show ?thesis by simp
next
  case (Cons v vs')
  with assms(1,2) show ?thesis
    using hdr_add_more [of k acc "[v]" vs'] by (simp add: hdr_add_first)
qed

lemma hdr_add_all:
  assumes "hdr_inv H" "distinct (map fst (acc @ H))"
  shows "foldl (\<lambda>n (name, v). hdr_add n name v) acc (hdr_get_all H) = acc @ H"
  using assms
proof (induction H arbitrary: acc)
  case Nil
  then show ?case by (simp add: hdr_get_all_def)
next
  case (Cons p H)
  obtain k vs where p: "p = (k, vs)" by (cases p)
  from Cons.prems(1) p have k: "normalize_header k = k" "vs \<noteq> []" and inv: "hdr_inv H"
    by (simp_all add: hdr_inv_def)
  from Cons.prems(2) p have notin: "k \<notin> fst ` set acc"
    and dist: "distinct (map fst ((acc @ [(k, vs)]) @ H))"
    by auto
  have "foldl (\<lambda>n (name, v). hdr_add n name v) acc (hdr_get_all (p # H))
          = foldl (\<lambda>n (name, v). hdr_add n name v)
              (foldl (\<lambda>n (name, v). hdr_add n name v) acc (map (Pair k) vs)) (hdr_get_all H)"
    by (simp add: hdr_get_all_def p)
  also have "\<dots> = foldl (\<lambda>n (name, v). hdr_add n name v) (acc @ [(k, vs)]) (hdr_get_all H)"
    by (simp add: hdr_add_values [OF k(1) notin k(2)])
  also have "\<dots> = (acc @ [(k, vs)]) @ H"
    by (rule Cons.IH [OF inv dist])
  finally show ?case by (simp add: p)
qed

lemma hdr_copy_id: "hdr_inv H \<Longrightarrow> hdr_copy H = H"
  using hdr_add_all [of H "[]"] by (simp add: hdr_copy_def hdr_inv_def)

lemma hdr_inv_filter: "hdr_inv H \<Longrightarrow> hdr_inv (filter P H)"
  by (simp add: hdr_inv_def distinct_map_filter list_all_iff)

lemma hdr_get_all_filter:
  "filter (\<lambda>(name, v). P name) (hdr_get_all H) = hdr_get_all (filter (\<lambda>(name, vs). P name) H)"
  by (induction H) (auto simp: hdr_get_all_def filter_map comp_def)

section \<open>Facts about the supervisor\<close>

lemma ensure_process_present:
  "st_proc st = Some p \<Longrightarrow> ensure_process sv env st = (Inr (), st, [])"
  by (simp add: ensure_process_def)

lemma ensure_process_fail_absent:
  "ensure_process sv env st = (Inl e, st', evs) \<Longrightarrow> st_proc st' = None"
  by (auto simp: ensure_process_def Let_def split: option.splits sum.splits bool.splits)

lemma ensure_process_ok_present:
  "ensure_process sv env st = (Inr u, st', evs) \<Longrightarrow> st_proc st' \<noteq> None"
  by (auto simp: ensure_process_def Let_def get_port_def
      split: option.splits sum.splits bool.splits if_splits)

lemma ensure_process_absent_starts:
  "st_proc st = None \<Longrightarrow> \<exists>p rest. snd (snd (ensure_process sv env st)) = Start p # rest"
  by (auto simp: ensure_process_def Let_def split: option.splits sum.splits bool.splits)

lemma ensure_process_starts_le1:
  "length (filter is_start (snd (snd (ensure_process sv env st)))) \<le> 1"
  by (auto simp: ensure_process_def Let_def is_start_def
      split: option.splits sum.splits bool.splits)

lemma ensure_calls_present:
  "st_proc st \<noteq> None \<Longrightarrow> ensure_calls sv envs st = (replicate (length envs) (Inr ()), st, [])"
  by (induction envs) (auto simp: ensure_process_def)

lemma ensure_process_start_raises:
  "st_proc st = None \<Longrightarrow> start_raises env = Some e \<Longrightarrow>
     ensure_process sv env st =
       (Inl e, st, [Start \<lparr>sp_name = process_name, sp_cmd = sv_cmd sv,
                            sp_env = sv_environ sv ++ get_env, sp_ready_timeout = get_timeout\<rparr>])"
  by (simp add: ensure_process_def Let_def)

lemma ensure_process_ready_raises:
  "st_proc st = None \<Longrightarrow> start_raises env = None \<Longrightarrow> ready_result env = Inl e \<Longrightarrow>
     fst (ensure_process sv env st) = Inl e"
  by (simp add: ensure_process_def Let_def)

lemma ensure_process_not_ready:
  assumes "st_proc st = None" "start_raises env = None" "ready_result env = Inr False"
  shows "\<exists>p st'. ensure_process sv env st =
            (Inl (case kill_raises env of
                    Some e \<Rightarrow> e
                  | None \<Rightarrow> HTTPError 500 ''could not start process in time''),
             st', [Start p, Ready p, Kill p])
          \<and> st_proc st' = None \<and> sp_ready_timeout p = 5"
  using assms
  by (simp add: ensure_process_def Let_def process_name_def get_timeout_def
      split: option.splits)

section \<open>Claims about the supervisor\<close>

text \<open>
  C1. Every failure of \<open>ensure_process\<close> leaves the record without a process handle, so the
  next call, whatever the process primitive does then, begins with a fresh spawn. A spawn
  that raises, a readiness wait that raises and a readiness wait that reports "not ready"
  are such failures.
\<close>

theorem ensure_process_rollback:
  "(ensure_process sv env st = (Inl e, st', evs) \<longrightarrow>
      st_proc st' = None \<and>
      (\<forall>env'. \<exists>p rest. snd (snd (ensure_process sv env' st')) = Start p # rest)) \<and>
   (st_proc st = None \<and> start_raises env = Some e \<longrightarrow>
      fst (ensure_process sv env st) = Inl e) \<and>
   (st_proc st = None \<and> start_raises env = None \<and> ready_result env = Inl e \<longrightarrow>
      fst (ensure_process sv env st) = Inl e) \<and>
   (st_proc st = None \<and> start_raises env = None \<and> ready_result env = Inr False \<longrightarrow>
      (\<exists>e'. fst (ensure_process sv env st) = Inl e'))"
proof (intro conjI impI)
  assume fails: "ensure_process sv env st = (Inl e, st', evs)"
  then show absent: "st_proc st' = None"
    by (rule ensure_process_fail_absent)
  show "\<forall>env'. \<exists>p rest. snd (snd (ensure_process sv env' st')) = Start p # rest"
    using absent by (simp add: ensure_process_absent_starts)
next
  assume "st_proc st = None \<and> start_raises env = Some e"
  then show "fst (ensure_process sv env st) = Inl e"
    by (simp add: ensure_process_start_raises)
next
  assume "st_proc st = None \<and> start_raises env = None \<and> ready_result env = Inl e"
  then show "fst (ensure_process sv env st) = Inl e"
    by (simp add: ensure_process_ready_raises)
next
  assume a: "st_proc st = None \<and> start_raises env = None \<and> ready_result env = Inr False"
  then obtain p st' where "ensure_process sv env st =
            (Inl (case kill_raises env of
                    Some e \<Rightarrow> e
                  | None \<Rightarrow> HTTPError 500 ''could not start process in time''),
             st', [Start p, Ready p, Kill p])"
    using ensure_process_not_ready [of st env sv] by blast
  then show "\<exists>e'. fst (ensure_process sv env st) = Inl e'"
    by simp
qed

lemma example_spawn_fails:
  "ensure_process example_supervisor env_spawn_fails example_state =
     (Inl (Raised ''No such file or directory''), example_state, [Start example_process])"
  by (simp add: ensure_process_def Let_def example_supervisor_def env_spawn_fails_def
      env_ready_def example_state_def example_process_def process_name_def get_env_def
      get_timeout_def)

theorem ensure_process_rollback_witness:
  "ensure_process example_supervisor env_spawn_fails example_state =
     (Inl (Raised ''No such file or directory''), example_state, [Start example_process]) \<and>
   st_proc example_state = None \<and>
   start_raises env_spawn_fails = Some (Raised ''No such file or directory'') \<and>
   (\<exists>p rest. snd (snd (ensure_process example_supervisor env_ready example_state))
      = Start p # rest) \<and>
   start_raises env_not_ready = None \<and> ready_result env_not_ready = Inr False \<and>
   (\<exists>e'. fst (ensure_process example_supervisor env_not_ready example_state) = Inl e')"
  using ensure_process_rollback [of example_supervisor env_spawn_fails example_state
      "Raised ''No such file or directory''" example_state "[Start example_process]"]
    ensure_process_rollback [of example_supervisor env_not_ready example_state]
    example_spawn_fails
  by (simp add: example_state_def env_spawn_fails_def env_not_ready_def env_ready_def)

lemma supervise_proxy_fails:
  "fst (ensure_process sv env st) = Inl e \<Longrightarrow>
     fst (supervise_proxy join fetch t1 t2 sv env h st path) = Inl e"
  by (cases "ensure_process sv env st") (simp add: supervise_proxy_def Let_def)

text \<open>
  C2. When the readiness wait reports "not ready" (the process was given the timeout of
  \<open>get_timeout\<close>, 5), \<open>ensure_process\<close> kills the process it spawned, fails, and leaves the
  record without a process handle. When the kill itself returns, the failure is the HTTP
  error with status 500 and message "could not start process in time", and it is what the
  request handler \<open>proxy\<close> ends with.
\<close>

theorem ensure_process_timeout:
  assumes "st_proc st = None" and "start_raises env = None" and "ready_result env = Inr False"
  shows "\<exists>p st' e.
           ensure_process sv env st = (Inl e, st', [Start p, Ready p, Kill p]) \<and>
           sp_ready_timeout p = get_timeout \<and> get_timeout = 5 \<and>
           st_proc st' = None \<and>
           (kill_raises env = None \<longrightarrow>
              e = HTTPError 500 ''could not start process in time'' \<and>
              fst (supervise_proxy join fetch t1 t2 sv env h st path) = Inl e)"
proof -
  obtain p st' where run: "ensure_process sv env st =
      (Inl (case kill_raises env of
              Some e \<Rightarrow> e
            | None \<Rightarrow> HTTPError 500 ''could not start process in time''),
       st', [Start p, Ready p, Kill p])"
    and rest: "st_proc st' = None" "sp_ready_timeout p = 5"
    using ensure_process_not_ready [OF assms] by blast
  let ?e = "case kill_raises env of
              Some e \<Rightarrow> e
            | None \<Rightarrow> HTTPError 500 ''could not start process in time''"
  have "fst (supervise_proxy join fetch t1 t2 sv env h st path) = Inl ?e"
    using run by (simp add: supervise_proxy_fails)
  then have "kill_raises env = None \<longrightarrow>
      ?e = HTTPError 500 ''could not start process in time'' \<and>
      fst (supervise_proxy join fetch t1 t2 sv env h st path) = Inl ?e"
    by simp
  with run rest show ?thesis
    by (simp add: get_timeout_def)
qed

theorem ensure_process_timeout_witness:
  "st_proc example_state = None \<and> start_raises env_not_ready = None \<and>
   ready_result env_not_ready = Inr False \<and> kill_raises env_not_ready = None \<and>
   (\<exists>p st'. ensure_process example_supervisor env_not_ready example_state =
              (Inl (HTTPError 500 ''could not start process in time''), st',
               [Start p, Ready p, Kill p]) \<and>
            sp_ready_timeout p = 5 \<and> st_proc st' = None)"
proof -
  have a: "st_proc example_state = None"
    by (simp add: example_state_def)
  have b: "start_raises env_not_ready = None"
    by (simp add: env_not_ready_def env_ready_def)
  have c: "ready_result env_not_ready = Inr False"
    by (simp add: env_not_ready_def env_ready_def)
  have d: "kill_raises env_not_ready = None"
    by (simp add: env_not_ready_def env_ready_def)
  from ensure_process_timeout [OF a b c, of example_supervisor url_path_join
      fetch_not_found 0 1 example_handler "''app''"] d
  have "\<exists>p st'. ensure_process example_supervisor env_not_ready example_state =
              (Inl (HTTPError 500 ''could not start process in time''), st',
               [Start p, Ready p, Kill p]) \<and>
            sp_ready_timeout p = 5 \<and> st_proc st' = None"
    by auto
  with a b c d show ?thesis by simp
qed

text \<open>
  C3. When the record already holds a process handle, \<open>ensure_process\<close> succeeds at once:
  no call is made on the process primitive and the record is unchanged. In a sequence of
  calls on one target whose first call succeeds, at most one spawn occurs and every call
  succeeds.
\<close>

theorem ensure_process_single_spawn:
  "(st_proc st = Some p \<longrightarrow> ensure_process sv env st = (Inr (), st, [])) \<and>
   (fst (ensure_process sv env st) = Inr () \<longrightarrow>
      length (filter is_start (snd (snd (ensure_calls sv (env # envs) st)))) \<le> 1 \<and>
      fst (ensure_calls sv (env # envs) st) = replicate (Suc (length envs)) (Inr ()))"
proof (intro conjI impI)
  assume "st_proc st = Some p"
  then show "ensure_process sv env st = (Inr (), st, [])"
    by (rule ensure_process_present)
next
  assume ok: "fst (ensure_process sv env st) = Inr ()"
  obtain st' evs where first: "ensure_process sv env st = (Inr (), st', evs)"
    using ok by (cases "ensure_process sv env st") auto
  then have "st_proc st' \<noteq> None"
    by (rule ensure_process_ok_present)
  then have later: "ensure_calls sv envs st' = (replicate (length envs) (Inr ()), st', [])"
    by (rule ensure_calls_present)
  have all: "ensure_calls sv (env # envs) st = (Inr () # replicate (length envs) (Inr ()), st', evs)"
    by (simp add: first later)
  have "length (filter is_start evs) \<le> 1"
    using ensure_process_starts_le1 [of sv env st] by (simp add: first)
  then show "length (filter is_start (snd (snd (ensure_calls sv (env # envs) st)))) \<le> 1"
    unfolding all by simp
  show "fst (ensure_calls sv (env # envs) st) = replicate (Suc (length envs)) (Inr ())"
    unfolding all by simp
qed

theorem ensure_process_single_spawn_witness:
  "st_proc example_running = Some example_process \<and>
   ensure_process example_supervisor env_spawn_fails example_running
     = (Inr (), example_running, []) \<and>
   fst (ensure_process example_supervisor env_ready example_state) = Inr () \<and>
   length (filter is_start (snd (snd (ensure_calls example_supervisor
       [env_ready, env_spawn_fails, env_not_ready] example_state)))) \<le> 1 \<and>
   fst (ensure_calls example_supervisor [env_ready, env_spawn_fails, env_not_ready]
       example_state) = [Inr (), Inr (), Inr ()]"
proof -
  have ok: "fst (ensure_process example_supervisor env_ready example_state) = Inr ()"
    by (simp add: ensure_process_def Let_def example_state_def env_ready_def)
  have running: "st_proc example_running = Some example_process"
    by (simp add: example_running_def)
  from ensure_process_single_spawn [of example_state example_process example_supervisor
      env_ready "[env_spawn_fails, env_not_ready]"] ok
    ensure_process_single_spawn [of example_running example_process example_supervisor
      env_spawn_fails "[]"] running
  show ?thesis by (simp add: numeral_2_eq_2)
qed


section \<open>Facts about the proxy handler\<close>

lemma str_nat_9000: "str_nat 9000 = ''9000''"
  by (simp add: str_nat.simps [of 9000] str_nat.simps [of 900] str_nat.simps [of 90]
      str_nat.simps [of 9])

lemmas string_defs =
  py_lower_def lower_char_def upper_char_def py_capitalize_def normalize_header_def

lemma normalize_literals:
  "normalize_header ''Proxy-Connection'' = ''Proxy-Connection''"
  "normalize_header ''Upgrade'' = ''Upgrade''"
  "normalize_header ''X-Forwarded-Context'' = ''X-Forwarded-Context''"
  "normalize_header ''X-ProxyContextPath'' = ''X-Proxycontextpath''"
  "normalize_header ''X-Proxycontextpath'' = ''X-Proxycontextpath''"
  by (simp_all add: string_defs)

lemma normalize_stripped:
  "normalize_header ''Content-Length'' = ''Content-Length''"
  "normalize_header ''Transfer-Encoding'' = ''Transfer-Encoding''"
  "normalize_header ''Content-Encoding'' = ''Content-Encoding''"
  "normalize_header ''Connection'' = ''Connection''"
  by (simp_all add: string_defs)

lemma lower_WebSocket: "py_lower ''WebSocket'' = ''websocket''"
  by (simp add: string_defs)

lemma hdr_get_setitem_same: "hdr_get (hdr_setitem H name v) name dflt = v"
  by (simp add: hdr_get_def hdr_setitem_def update_conv')

lemma hdr_get_setitem_other:
  "normalize_header name' \<noteq> normalize_header name \<Longrightarrow>
     hdr_get (hdr_setitem H name v) name' dflt = hdr_get H name' dflt"
  by (simp add: hdr_get_def hdr_setitem_def update_conv')

lemma hdr_get_delitem_other:
  "normalize_header name' \<noteq> normalize_header name \<Longrightarrow>
     hdr_get (hdr_delitem H name) name' dflt = hdr_get H name' dflt"
  by (simp add: hdr_get_def hdr_delitem_def)

lemma proxy_entry_config:
  "proxy_base (proxy_entry now h) = proxy_base h"
  "rewrite (proxy_entry now h) = rewrite h"
  "base_url (proxy_entry now h) = base_url h"
  "req_method (request (proxy_entry now h)) = req_method (request h)"
  "req_query (request (proxy_entry now h)) = req_query (request h)"
  "req_body (request (proxy_entry now h)) = req_body (request h)"
  "write_buffer (proxy_entry now h) = write_buffer h"
  "out_headers (proxy_entry now h) = out_headers h"
  by (simp_all add: proxy_entry_def Let_def record_activity_def set_status_def)

lemma proxy_entry_upgrade:
  "hdr_get (req_headers (request (record_activity now
       (if hdr_contains (req_headers (request h)) ''Proxy-Connection''
        then h\<lparr>request := (request h)\<lparr>req_headers :=
               hdr_delitem (req_headers (request h)) ''Proxy-Connection''\<rparr>\<rparr>
        else h)))) ''Upgrade'' dflt
     = hdr_get (req_headers (request h)) ''Upgrade'' dflt"
  by (simp add: record_activity_def hdr_get_delitem_other normalize_literals)

lemma proxy_entry_status:
  "status_code (proxy_entry now h) =
     (if py_lower (hdr_get (req_headers (request h)) ''Upgrade'' []) = ''websocket'' then 500
      else status_code h)"
  unfolding proxy_entry_def Let_def proxy_entry_upgrade
  by (simp add: record_activity_def set_status_def)

lemma proxy_prepare_Inr:
  assumes "proxy_prepare join now h port path = Inr (h', req)"
  shows "h' = proxy_entry now h"
    and "build_proxy_request join (proxy_entry now h) port path
           (proxy_body (request (proxy_entry now h))) = Inr req"
  using assms by (auto simp: proxy_prepare_def Let_def split: sum.splits)

lemma proxy_body_entry: "proxy_body (request (proxy_entry now h)) = proxy_body (request h)"
  by (simp add: proxy_body_def proxy_entry_config)

lemma build_proxy_request_Inr:
  assumes "build_proxy_request join h port path body = Inr req"
  shows "rq_body req = body" and "rq_method req = req_method (request h)"
    and "rq_follow_redirects req = False"
  using assms
  by (auto simp: build_proxy_request_def Let_def proxy_request_options_def split: sum.splits)

lemma proxy_Inr:
  "proxy_prepare join t1 h port path = Inr (h', req) \<Longrightarrow> fetch req = Inr r \<Longrightarrow>
     proxy join fetch t1 t2 h port path = Inr (proxy_relay t2 h' r)"
  by (simp add: proxy_def)

lemma proxy_fetch_raises:
  "proxy_prepare join t1 h port path = Inr (h', req) \<Longrightarrow> fetch req = Inl e \<Longrightarrow>
     proxy join fetch t1 t2 h port path = Inl e"
  by (simp add: proxy_def)

lemma proxy_Inl:
  "proxy_prepare join t1 h port path = Inl e \<Longrightarrow> proxy join fetch t1 t2 h port path = Inl e"
  by (simp add: proxy_def)

lemma relay_fold:
  "foldl (\<lambda>h (header, v). if header \<notin> set stripped_headers then add_header h header v else h) h L
     = h\<lparr>out_headers := foldl (\<lambda>n (name, v). hdr_add n name v) (out_headers h)
            (filter (\<lambda>(name, v). name \<notin> set stripped_headers) L)\<rparr>"
  by (induction L arbitrary: h) (auto simp: add_header_def)

lemma proxy_relay_headers:
  assumes "rsp_error r = None \<or> rsp_error r = Some ClientHTTPError" "hdr_inv (rsp_headers r)"
  shows "out_headers (proxy_relay now h r)
           = filter (\<lambda>(name, vs). name \<notin> set stripped_headers) (rsp_headers r)"
proof -
  let ?H = "filter (\<lambda>(name, vs). name \<notin> set stripped_headers) (rsp_headers r)"
  have inv: "hdr_inv ?H" using assms(2) by (rule hdr_inv_filter)
  then have dist: "distinct (map fst ([] @ ?H))" by (simp add: hdr_inv_def)
  have "out_headers (proxy_relay now h r)
          = foldl (\<lambda>n (name, v). hdr_add n name v) []
              (filter (\<lambda>(name, v). name \<notin> set stripped_headers) (hdr_get_all (rsp_headers r)))"
    using assms(1)
    by (auto simp: proxy_relay_def Let_def relay_fold write_chunk_def set_status_def
        record_activity_def)
  also have "\<dots> = foldl (\<lambda>n (name, v). hdr_add n name v) [] (hdr_get_all ?H)"
    by (simp only: hdr_get_all_filter)
  also have "\<dots> = [] @ ?H"
    by (rule hdr_add_all [OF inv dist])
  finally show ?thesis by simp
qed

lemma proxy_relay_status:
  assumes "rsp_error r = None \<or> rsp_error r = Some ClientHTTPError"
  shows "status_code (proxy_relay now h r) = rsp_code r"
    and "reason (proxy_relay now h r) = Some (rsp_reason r)"
    and "write_buffer (proxy_relay now h r)
           = write_buffer h @ (if rsp_body r \<noteq> [] then [rsp_body r] else [])"
  using assms
  by (auto simp: proxy_relay_def Let_def relay_fold write_chunk_def set_status_def
      record_activity_def)

lemma proxy_relay_transport:
  assumes "rsp_error r = Some (OtherError d)"
  shows "proxy_relay now h r =
           h\<lparr>api_last_activity := Some now, status_code := 500, reason := None,
              write_buffer := write_buffer h @ [d]\<rparr>"
  using assms
  by (simp add: proxy_relay_def Let_def write_chunk_def set_status_def record_activity_def)

lemma filter_no_key:
  "k \<in> set ks \<Longrightarrow> map_of (filter (\<lambda>(name, vs). name \<notin> set ks) H) k = None"
  by (induction H) auto

lemma example_entry: "proxy_entry 7 example_handler = example_prepared"
  by (simp add: proxy_entry_def Let_def example_handler_def example_request_def
      example_prepared_def hdr_contains_def hdr_delitem_def hdr_get_def normalize_literals
      record_activity_def set_status_def lower_WebSocket)

lemma example_build:
  "build_proxy_request url_path_join example_prepared (PortInt 9000) ''/foo'' (Some [])
     = Inr example_outbound"
  by (simp add: build_proxy_request_def get_context_path_def Let_def example_prepared_def
      example_handler_def example_request_def example_outbound_def url_path_join_def
      str_nat_9000 proxy_request_headers_def proxy_request_options_def hdr_copy_def
      hdr_get_all_def hdr_add_def hdr_setitem_def normalize_literals)

lemma example_prepare:
  "proxy_prepare url_path_join 7 example_handler (PortInt 9000) ''/foo''
     = Inr (example_prepared, example_outbound)"
proof -
  have "proxy_body (request example_prepared) = Some []"
    by (simp add: proxy_body_def example_prepared_def example_handler_def example_request_def)
  then show ?thesis
    by (simp add: proxy_prepare_def Let_def example_entry example_build)
qed

section \<open>Claims about the proxy handler\<close>

text \<open>
  C9. When the inbound request has an empty body, the body of the request handed to the
  fetch depends on the method alone: it is the empty byte string for \<open>POST\<close> and absent
  for every other method.
\<close>

theorem proxy_empty_body:
  assumes "req_body (request h) = []"
    and "proxy_prepare join now h port path = Inr (h', req)"
  shows "rq_body req = (if req_method (request h) = ''POST'' then Some [] else None)"
proof -
  have "rq_body req = proxy_body (request (proxy_entry now h))"
    using proxy_prepare_Inr(2) [OF assms(2)] by (rule build_proxy_request_Inr(1))
  then have "rq_body req = proxy_body (request h)"
    by (simp only: proxy_body_entry)
  with assms(1) show ?thesis
    by (simp add: proxy_body_def)
qed

theorem proxy_empty_body_witness:
  "req_body (request example_handler) = [] \<and>
   proxy_prepare url_path_join 7 example_handler (PortInt 9000) ''/foo''
     = Inr (example_prepared, example_outbound) \<and>
   req_method (request example_handler) = ''POST'' \<and>
   rq_body example_outbound = Some []"
proof -
  have empty: "req_body (request example_handler) = []"
    by (simp add: example_handler_def example_request_def)
  have post: "req_method (request example_handler) = ''POST''"
    by (simp add: example_handler_def example_request_def)
  from proxy_empty_body [OF empty example_prepare] post
  have "rq_body example_outbound = Some []" by simp
  with empty post example_prepare show ?thesis by simp
qed

text \<open>
  C10. A request that reaches \<open>proxy\<close> with an \<open>Upgrade: websocket\<close> header (any method;
  a \<open>GET\<close> of that kind is taken by the WebSocket handshake before) gets status 500 set
  but is forwarded all the same: what \<open>proxy\<close> ends with is decided by the fetch of the
  built request. When the fetch returns a response, the result is the relay of that
  response, and unless it carries a transport error the backend's status code replaces the
  500; when the fetch raises, so does \<open>proxy\<close>.
\<close>

theorem proxy_upgrade_forwarded:
  assumes "py_lower (hdr_get (req_headers (request h)) ''Upgrade'' []) = ''websocket''"
    and "proxy_prepare join t1 h port path = Inr (h', req)"
  shows "status_code h' = 500 \<and>
         (\<forall>r. fetch req = Inr r \<longrightarrow>
            proxy join fetch t1 t2 h port path = Inr (proxy_relay t2 h' r) \<and>
            (rsp_error r = None \<or> rsp_error r = Some ClientHTTPError \<longrightarrow>
               status_code (proxy_relay t2 h' r) = rsp_code r)) \<and>
         (\<forall>e. fetch req = Inl e \<longrightarrow> proxy join fetch t1 t2 h port path = Inl e)"
proof -
  have "h' = proxy_entry t1 h"
    using assms(2) by (rule proxy_prepare_Inr(1))
  with assms(1) have "status_code h' = 500"
    by (simp add: proxy_entry_status)
  moreover have "proxy join fetch t1 t2 h port path = Inr (proxy_relay t2 h' r)"
    if "fetch req = Inr r" for r
    using assms(2) that by (rule proxy_Inr)
  moreover have "rsp_error r = None \<or> rsp_error r = Some ClientHTTPError \<longrightarrow>
      status_code (proxy_relay t2 h' r) = rsp_code r" for r
    by (simp add: proxy_relay_status(1))
  moreover have "proxy join fetch t1 t2 h port path = Inl e" if "fetch req = Inl e" for e
    using assms(2) that by (rule proxy_fetch_raises)
  ultimately show ?thesis by simp
qed

lemma example_upgrade:
  "py_lower (hdr_get (req_headers (request example_handler)) ''Upgrade'' []) = ''websocket''"
  by (simp add: example_handler_def example_request_def hdr_get_def normalize_literals
      lower_WebSocket)

theorem proxy_upgrade_forwarded_witness:
  "py_lower (hdr_get (req_headers (request example_handler)) ''Upgrade'' []) = ''websocket'' \<and>
   req_method (request example_handler) = ''POST'' \<and>
   proxy_prepare url_path_join 7 example_handler (PortInt 9000) ''/foo''
     = Inr (example_prepared, example_outbound) \<and>
   status_code example_prepared = 500 \<and>
   fetch_not_found example_outbound = Inr example_response \<and>
   rsp_error example_response = Some ClientHTTPError \<and>
   proxy url_path_join fetch_not_found 7 8 example_handler (PortInt 9000) ''/foo''
     = Inr (proxy_relay 8 example_prepared example_response) \<and>
   status_code (proxy_relay 8 example_prepared example_response) = 404 \<and>
   fetch_raises example_outbound = Inl (Raised ''Connection refused'') \<and>
   proxy url_path_join fetch_raises 7 8 example_handler (PortInt 9000) ''/foo''
     = Inl (Raised ''Connection refused'')"
proof -
  have err: "rsp_error example_response = Some ClientHTTPError"
    and code: "rsp_code example_response = 404"
    by (simp_all add: example_response_def)
  have post: "req_method (request example_handler) = ''POST''"
    by (simp add: example_handler_def example_request_def)
  have returned: "fetch_not_found example_outbound = Inr example_response"
    by (simp add: fetch_not_found_def)
  have raised: "fetch_raises example_outbound = Inl (Raised ''Connection refused'')"
    by (simp add: fetch_raises_def)
  from proxy_upgrade_forwarded [OF example_upgrade example_prepare, of fetch_not_found 8]
    returned err code
  have "status_code example_prepared = 500 \<and>
    proxy url_path_join fetch_not_found 7 8 example_handler (PortInt 9000) ''/foo''
      = Inr (proxy_relay 8 example_prepared example_response) \<and>
    status_code (proxy_relay 8 example_prepared example_response) = 404"
    by simp
  moreover
  from proxy_upgrade_forwarded [OF example_upgrade example_prepare, of fetch_raises 8] raised
  have "proxy url_path_join fetch_raises 7 8 example_handler (PortInt 9000) ''/foo''
      = Inl (Raised ''Connection refused'')"
    by simp
  ultimately show ?thesis
    using example_upgrade example_prepare err post returned raised by simp
qed

text \<open>
  C4. The handler answers a transport failure with status 500 and the error's text only
  when the HTTP client hands the failure back inside the response: for a refused
  connection reported that way the result has status 500 and the body
  \<open>Connection refused\<close>. When the client raises the same failure out of the fetch, as
  tornado does from 6.0 on in spite of \<^verbatim>\<open>raise_error=False\<close>, the exception leaves
  \<open>proxy\<close>: the lines that set the status and write the text are not reached.
\<close>

theorem proxy_transport_failure:
  "proxy url_path_join fetch_raises 7 8 example_handler (PortInt 9000) ''/foo''
     = Inl (Raised ''Connection refused'') \<and>
   proxy url_path_join fetch_refused 7 8 example_handler (PortInt 9000) ''/foo''
     = Inr (example_prepared\<lparr>api_last_activity := Some 8, status_code := 500, reason := None,
                            write_buffer := [''Connection refused'']\<rparr>)"
proof -
  have "rsp_error example_refused = Some (OtherError ''Connection refused'')"
    by (simp add: example_refused_def)
  then have "proxy_relay 8 example_prepared example_refused =
      example_prepared\<lparr>api_last_activity := Some 8, status_code := 500, reason := None,
                       write_buffer := write_buffer example_prepared @ [''Connection refused'']\<rparr>"
    by (rule proxy_relay_transport)
  moreover have "write_buffer example_prepared = []"
    by (simp add: example_prepared_def example_handler_def)
  ultimately show ?thesis
    by (simp add: proxy_def example_prepare fetch_raises_def fetch_refused_def)
qed

lemma example_response_inv: "hdr_inv (rsp_headers example_response)"
  by (simp add: example_response_def hdr_inv_def string_defs)

text \<open>
  C7. When the fetch returns the backend's response and it is relayed, the handler's
  headers are exactly the response's headers without \<open>Content-Length\<close>,
  \<open>Transfer-Encoding\<close>, \<open>Content-Encoding\<close> and \<open>Connection\<close>: every other name is kept
  with all its values, in order, and none of the four names is found in the result under
  any spelling. When the response carries a transport error, no header of it is copied.
\<close>

theorem proxy_strips_headers:
  assumes "proxy_prepare join t1 h port path = Inr (h', req)"
    and "fetch req = Inr r"
    and "hdr_inv (rsp_headers r)"
  shows "\<exists>hf. proxy join fetch t1 t2 h port path = Inr hf \<and>
           (rsp_error r = None \<or> rsp_error r = Some ClientHTTPError \<longrightarrow>
              out_headers hf =
                filter (\<lambda>(name, vs). name \<notin> set [''Content-Length'', ''Transfer-Encoding'',
                                                 ''Content-Encoding'', ''Connection''])
                  (rsp_headers r) \<and>
              (\<forall>name. normalize_header name \<in> set [''Content-Length'', ''Transfer-Encoding'',
                                                     ''Content-Encoding'', ''Connection''] \<longrightarrow>
                 \<not> hdr_contains (out_headers hf) name)) \<and>
           (\<forall>d. rsp_error r = Some (OtherError d) \<longrightarrow> out_headers hf = out_headers h)"
proof -
  let ?hf = "proxy_relay t2 h' r"
  have run: "proxy join fetch t1 t2 h port path = Inr ?hf"
    using assms(1,2) by (rule proxy_Inr)
  have "h' = proxy_entry t1 h"
    using assms(1) by (rule proxy_prepare_Inr(1))
  then have before: "out_headers h' = out_headers h"
    by (simp add: proxy_entry_config)
  have relayed: "out_headers ?hf =
        filter (\<lambda>(name, vs). name \<notin> set [''Content-Length'', ''Transfer-Encoding'',
                                         ''Content-Encoding'', ''Connection'']) (rsp_headers r) \<and>
      (\<forall>name. normalize_header name \<in> set [''Content-Length'', ''Transfer-Encoding'',
                                             ''Content-Encoding'', ''Connection''] \<longrightarrow>
         \<not> hdr_contains (out_headers ?hf) name)"
    if answered: "rsp_error r = None \<or> rsp_error r = Some ClientHTTPError"
  proof -
    have out: "out_headers ?hf = filter (\<lambda>(name, vs). name \<notin> set stripped_headers) (rsp_headers r)"
      using answered assms(3) by (rule proxy_relay_headers)
    have "\<not> hdr_contains (out_headers ?hf) name"
      if "normalize_header name \<in> set stripped_headers" for name
      using that by (simp only: out hdr_contains_def filter_no_key) simp
    with out show ?thesis
      by (simp add: stripped_headers_def)
  qed
  have failed: "out_headers ?hf = out_headers h" if "rsp_error r = Some (OtherError d)" for d
    using that by (simp add: proxy_relay_transport before)
  from run relayed failed show ?thesis
    by blast
qed

theorem proxy_strips_headers_witness:
  "proxy_prepare url_path_join 7 example_handler (PortInt 9000) ''/foo''
     = Inr (example_prepared, example_outbound) \<and>
   fetch_not_found example_outbound = Inr example_response \<and>
   hdr_inv (rsp_headers example_response) \<and>
   rsp_error example_response = Some ClientHTTPError \<and>
   (\<exists>hf. proxy url_path_join fetch_not_found 7 8 example_handler (PortInt 9000) ''/foo''
            = Inr hf \<and>
          out_headers hf = [(''Set-Cookie'', [''a=1'', ''b=2'']), (''Content-Type'', [''text/plain''])] \<and>
          \<not> hdr_contains (out_headers hf) ''content-length'')"
proof -
  have answered: "rsp_error example_response = Some ClientHTTPError"
    by (simp add: example_response_def)
  have returned: "fetch_not_found example_outbound = Inr example_response"
    by (simp add: fetch_not_found_def)
  have name: "normalize_header ''content-length'' = ''Content-Length''"
    by (simp add: string_defs)
  have kept: "filter (\<lambda>(name, vs). name \<notin> set [''Content-Length'', ''Transfer-Encoding'',
                                         ''Content-Encoding'', ''Connection''])
                (rsp_headers example_response)
              = [(''Set-Cookie'', [''a=1'', ''b=2'']), (''Content-Type'', [''text/plain''])]"
    by (simp add: example_response_def)
  from proxy_strips_headers [where fetch = fetch_not_found and ?t2.0 = 8,
      OF example_prepare returned example_response_inv] answered
  obtain hf where
    "proxy url_path_join fetch_not_found 7 8 example_handler (PortInt 9000) ''/foo'' = Inr hf"
    "out_headers hf =
       filter (\<lambda>(name, vs). name \<notin> set [''Content-Length'', ''Transfer-Encoding'',
                                        ''Content-Encoding'', ''Connection''])
         (rsp_headers example_response)"
    "\<forall>name. normalize_header name \<in> set [''Content-Length'', ''Transfer-Encoding'',
                                           ''Content-Encoding'', ''Connection''] \<longrightarrow>
       \<not> hdr_contains (out_headers hf) name"
    by blast
  then have "proxy url_path_join fetch_not_found 7 8 example_handler (PortInt 9000) ''/foo''
            = Inr hf \<and>
          out_headers hf = [(''Set-Cookie'', [''a=1'', ''b=2'']), (''Content-Type'', [''text/plain''])] \<and>
          \<not> hdr_contains (out_headers hf) ''content-length''"
    using name by (simp only: kept) simp
  then show ?thesis
    using example_prepare returned example_response_inv answered by blast
qed

lemma injected_headers:
  "hdr_get (hdr_setitem (hdr_setitem H ''X-Forwarded-Context'' c) ''X-ProxyContextPath'' c)
     ''X-Forwarded-Context'' dflt = c"
  "hdr_get (hdr_setitem (hdr_setitem H ''X-Forwarded-Context'' c) ''X-ProxyContextPath'' c)
     ''X-ProxyContextPath'' dflt = c"
  by (simp_all add: hdr_get_setitem_same hdr_get_setitem_other normalize_literals)

lemma build_passthrough:
  assumes "rewrite h = ''/''" and "get_context_path join h port = Inr ctx"
  shows "build_proxy_request join h port path body =
           Inr \<lparr>rq_url = ''http://localhost:'' @ str_port port @ path @
                          (if req_query (request h) \<noteq> [] then ''?'' @ req_query (request h) else []),
                rq_method = req_method (request h), rq_body = body,
                rq_headers = hdr_setitem (hdr_setitem (hdr_copy (req_headers (request h)))
                               ''X-Forwarded-Context'' ctx) ''X-ProxyContextPath'' ctx,
                rq_follow_redirects = False\<rparr>"
  using assms
  by (simp add: build_proxy_request_def Let_def proxy_request_headers_def
      proxy_request_options_def)

lemma build_absolute:
  assumes "rewrite h = []" and "get_context_path join h port = Inr ctx"
  shows "build_proxy_request join h port path body =
           Inr \<lparr>rq_url = ''http://localhost:'' @ str_port port @ join [ctx, path] @
                          (if req_query (request h) \<noteq> [] then ''?'' @ req_query (request h) else []),
                rq_method = req_method (request h), rq_body = body,
                rq_headers = hdr_copy (req_headers (request h)),
                rq_follow_redirects = False\<rparr>"
  using assms
  by (simp add: build_proxy_request_def Let_def proxy_request_headers_def
      proxy_request_options_def)

lemma context_path_modes:
  "rewrite h = ''/'' \<or> rewrite h = [] \<Longrightarrow>
     get_context_path join h port =
       Inr (if proxy_base h \<noteq> [] then join [base_url h, proxy_base h]
            else join [base_url h, ''proxy'', str_port port])"
  by (auto simp: get_context_path_def)

lemma context_path_unsupported:
  "proxy_base h = [] \<Longrightarrow> rewrite h \<noteq> ''/'' \<Longrightarrow> rewrite h \<noteq> [] \<Longrightarrow>
     get_context_path join h port =
       Inl (ValueError (''Unsupported rewrite: '' @ [CHR 0x22] @ rewrite h @ [CHR 0x22]))"
  by (simp add: get_context_path_def)

lemma build_unsupported:
  "proxy_base h = [] \<Longrightarrow> rewrite h \<noteq> ''/'' \<Longrightarrow> rewrite h \<noteq> [] \<Longrightarrow>
     build_proxy_request join h port path body =
       Inl (ValueError (''Unsupported rewrite: '' @ [CHR 0x22] @ rewrite h @ [CHR 0x22]))"
  by (simp add: build_proxy_request_def context_path_unsupported)

text \<open>
  C5. With the base URL \<open>/app\<close>, no proxy base, passthrough mode (\<open>rewrite = '/'\<close>), the
  query \<open>x=1\<close>, and \<open>url_path_join\<close> giving \<open>/app/proxy/9000\<close> for the context path, the
  request built for port 9000 and path \<open>/foo\<close> goes to \<open>http://localhost:9000/foo?x=1\<close>
  and carries \<open>X-Forwarded-Context\<close> and \<open>X-ProxyContextPath\<close> with that context path.
  In general passthrough mode sends the path unchanged and sets both headers to the
  context path, absolute mode (\<open>rewrite = ''\<close>) sends the request's own headers and no
  more, and without a proxy base no other mode builds a request.
\<close>

theorem build_proxy_request_passthrough:
  "(base_url h = ''/app'' \<and> proxy_base h = [] \<and> rewrite h = ''/'' \<and>
    req_query (request h) = ''x=1'' \<and> join [''/app'', ''proxy'', ''9000''] = ''/app/proxy/9000'' \<longrightarrow>
      (\<exists>req. build_proxy_request join h (PortInt 9000) ''/foo'' body = Inr req \<and>
             rq_url req = ''http://localhost:9000/foo?x=1'' \<and>
             hdr_get (rq_headers req) ''X-Forwarded-Context'' dflt = ''/app/proxy/9000'' \<and>
             hdr_get (rq_headers req) ''X-ProxyContextPath'' dflt = ''/app/proxy/9000'')) \<and>
   (rewrite h = ''/'' \<longrightarrow>
      (\<exists>req ctx. get_context_path join h port = Inr ctx \<and>
             build_proxy_request join h port path body = Inr req \<and>
             rq_url req = ''http://localhost:'' @ str_port port @ path @
               (if req_query (request h) \<noteq> [] then ''?'' @ req_query (request h) else []) \<and>
             rq_headers req = hdr_setitem (hdr_setitem (hdr_copy (req_headers (request h)))
                                ''X-Forwarded-Context'' ctx) ''X-ProxyContextPath'' ctx \<and>
             hdr_get (rq_headers req) ''X-Forwarded-Context'' dflt = ctx \<and>
             hdr_get (rq_headers req) ''X-ProxyContextPath'' dflt = ctx)) \<and>
   (rewrite h = [] \<longrightarrow>
      (\<exists>req. build_proxy_request join h port path body = Inr req \<and>
             rq_headers req = hdr_copy (req_headers (request h)))) \<and>
   (proxy_base h = [] \<and> build_proxy_request join h port path body = Inr r \<longrightarrow>
      rewrite h = ''/'' \<or> rewrite h = [])"
proof (intro conjI impI)
  assume a: "base_url h = ''/app'' \<and> proxy_base h = [] \<and> rewrite h = ''/'' \<and>
    req_query (request h) = ''x=1'' \<and> join [''/app'', ''proxy'', ''9000''] = ''/app/proxy/9000''"
  then have "get_context_path join h (PortInt 9000) = Inr ''/app/proxy/9000''"
    by (simp add: context_path_modes str_nat_9000)
  with a have "build_proxy_request join h (PortInt 9000) ''/foo'' body =
      Inr \<lparr>rq_url = ''http://localhost:9000/foo?x=1'',
           rq_method = req_method (request h), rq_body = body,
           rq_headers = hdr_setitem (hdr_setitem (hdr_copy (req_headers (request h)))
                          ''X-Forwarded-Context'' ''/app/proxy/9000'')
                          ''X-ProxyContextPath'' ''/app/proxy/9000'',
           rq_follow_redirects = False\<rparr>"
    by (simp add: build_passthrough str_nat_9000)
  then show "\<exists>req. build_proxy_request join h (PortInt 9000) ''/foo'' body = Inr req \<and>
             rq_url req = ''http://localhost:9000/foo?x=1'' \<and>
             hdr_get (rq_headers req) ''X-Forwarded-Context'' dflt = ''/app/proxy/9000'' \<and>
             hdr_get (rq_headers req) ''X-ProxyContextPath'' dflt = ''/app/proxy/9000''"
    by (simp add: injected_headers)
next
  assume mode: "rewrite h = ''/''"
  let ?ctx = "if proxy_base h \<noteq> [] then join [base_url h, proxy_base h]
              else join [base_url h, ''proxy'', str_port port]"
  have ctx: "get_context_path join h port = Inr ?ctx"
    using mode by (simp add: context_path_modes)
  show "\<exists>req ctx. get_context_path join h port = Inr ctx \<and>
             build_proxy_request join h port path body = Inr req \<and>
             rq_url req = ''http://localhost:'' @ str_port port @ path @
               (if req_query (request h) \<noteq> [] then ''?'' @ req_query (request h) else []) \<and>
             rq_headers req = hdr_setitem (hdr_setitem (hdr_copy (req_headers (request h)))
                                ''X-Forwarded-Context'' ctx) ''X-ProxyContextPath'' ctx \<and>
             hdr_get (rq_headers req) ''X-Forwarded-Context'' dflt = ctx \<and>
             hdr_get (rq_headers req) ''X-ProxyContextPath'' dflt = ctx"
    by (simp only: ctx build_passthrough [OF mode ctx]) (simp add: injected_headers)
next
  assume mode: "rewrite h = []"
  let ?ctx = "if proxy_base h \<noteq> [] then join [base_url h, proxy_base h]
              else join [base_url h, ''proxy'', str_port port]"
  have ctx: "get_context_path join h port = Inr ?ctx"
    using mode by (simp add: context_path_modes)
  show "\<exists>req. build_proxy_request join h port path body = Inr req \<and>
             rq_headers req = hdr_copy (req_headers (request h))"
    by (simp only: build_absolute [OF mode ctx]) simp
next
  assume "proxy_base h = [] \<and> build_proxy_request join h port path body = Inr r"
  then show "rewrite h = ''/'' \<or> rewrite h = []"
    using build_unsupported [of h join port path body] by auto
qed

lemma example_join: "url_path_join [''/app'', ''proxy'', ''9000''] = ''/app/proxy/9000''"
  by (simp add: url_path_join_def)

theorem build_proxy_request_passthrough_witness:
  "base_url example_handler = ''/app'' \<and> proxy_base example_handler = [] \<and>
   rewrite example_handler = ''/'' \<and> req_query (request example_handler) = ''x=1'' \<and>
   url_path_join [''/app'', ''proxy'', ''9000''] = ''/app/proxy/9000'' \<and>
   (\<exists>req. build_proxy_request url_path_join example_handler (PortInt 9000) ''/foo'' None = Inr req \<and>
          rq_url req = ''http://localhost:9000/foo?x=1'' \<and>
          hdr_get (rq_headers req) ''X-Forwarded-Context'' [] = ''/app/proxy/9000'' \<and>
          hdr_get (rq_headers req) ''X-ProxyContextPath'' [] = ''/app/proxy/9000'') \<and>
   rewrite example_absolute = [] \<and>
   (\<exists>req. build_proxy_request url_path_join example_absolute (PortInt 9000) ''/foo'' None = Inr req \<and>
          rq_headers req = hdr_copy (req_headers (request example_absolute)))"
proof -
  have config: "base_url example_handler = ''/app''" "proxy_base example_handler = []"
    "rewrite example_handler = ''/''" "req_query (request example_handler) = ''x=1''"
    by (simp_all add: example_handler_def example_request_def)
  have absolute: "rewrite example_absolute = []"
    by (simp add: example_absolute_def)
  from build_proxy_request_passthrough [of example_handler url_path_join None "[]"]
    config example_join
  have "\<exists>req. build_proxy_request url_path_join example_handler (PortInt 9000) ''/foo'' None = Inr req \<and>
          rq_url req = ''http://localhost:9000/foo?x=1'' \<and>
          hdr_get (rq_headers req) ''X-Forwarded-Context'' [] = ''/app/proxy/9000'' \<and>
          hdr_get (rq_headers req) ''X-ProxyContextPath'' [] = ''/app/proxy/9000''"
    by blast
  moreover
  from build_proxy_request_passthrough [of example_absolute url_path_join None "[]"
      "PortInt 9000" "''/foo''"] absolute
  have "\<exists>req. build_proxy_request url_path_join example_absolute (PortInt 9000) ''/foo'' None = Inr req \<and>
          rq_headers req = hdr_copy (req_headers (request example_absolute))"
    by blast
  ultimately show ?thesis
    using config example_join absolute by simp
qed

text \<open>
  C6, as stated, fails: with a proxy base configured, a rewrite mode that is neither
  \<open>'/'\<close> nor \<open>''\<close> raises nothing; the request is built as in passthrough mode.
\<close>

theorem unsupported_rewrite_with_proxy_base:
  "rewrite example_unsupported_based = ''foo'' \<and>
   proxy_base example_unsupported_based = ''lab'' \<and>
   build_proxy_request url_path_join example_unsupported_based (PortInt 9000) ''/foo'' None =
     Inr \<lparr>rq_url = ''http://localhost:9000/foo?x=1'', rq_method = ''POST'', rq_body = None,
          rq_headers = [(''Upgrade'', [''WebSocket'']), (''Proxy-Connection'', [''keep-alive'']),
                        (''X-Forwarded-Context'', [''/app/lab'']),
                        (''X-Proxycontextpath'', [''/app/lab''])],
          rq_follow_redirects = False\<rparr>"
  by (simp add: build_proxy_request_def get_context_path_def Let_def
      example_unsupported_based_def example_handler_def example_request_def url_path_join_def
      str_nat_9000 proxy_request_headers_def proxy_request_options_def hdr_copy_def
      hdr_get_all_def hdr_add_def hdr_setitem_def normalize_literals)

text \<open>
  C6, amended. When no proxy base is configured and the rewrite mode is neither \<open>'/'\<close>
  nor \<open>''\<close>, building the outbound request raises \<open>ValueError('Unsupported rewrite: "..."')\<close>,
  and so does \<open>proxy\<close>, at request time and before anything is fetched.
\<close>

theorem unsupported_rewrite_fails:
  assumes "proxy_base h = []" and "rewrite h \<noteq> ''/''" and "rewrite h \<noteq> []"
  shows "build_proxy_request join h port path body =
           Inl (ValueError (''Unsupported rewrite: '' @ [CHR 0x22] @ rewrite h @ [CHR 0x22])) \<and>
         proxy join fetch t1 t2 h port path =
           Inl (ValueError (''Unsupported rewrite: '' @ [CHR 0x22] @ rewrite h @ [CHR 0x22]))"
proof -
  let ?e = "ValueError (''Unsupported rewrite: '' @ [CHR 0x22] @ rewrite h @ [CHR 0x22])"
  have direct: "build_proxy_request join h port path body = Inl ?e"
    using assms by (rule build_unsupported)
  have "build_proxy_request join (proxy_entry t1 h) port path
          (proxy_body (request (proxy_entry t1 h))) = Inl ?e"
    using build_unsupported [of "proxy_entry t1 h" join port path
        "proxy_body (request (proxy_entry t1 h))"] assms
    by (simp add: proxy_entry_config)
  then have "proxy_prepare join t1 h port path = Inl ?e"
    by (simp add: proxy_prepare_def Let_def)
  then have "proxy join fetch t1 t2 h port path = Inl ?e"
    by (rule proxy_Inl)
  with direct show ?thesis by simp
qed

theorem unsupported_rewrite_fails_witness:
  "proxy_base example_unsupported = [] \<and> rewrite example_unsupported \<noteq> ''/'' \<and>
   rewrite example_unsupported \<noteq> [] \<and>
   build_proxy_request url_path_join example_unsupported (PortInt 9000) ''/foo'' None =
     Inl (ValueError (''Unsupported rewrite: '' @ [CHR 0x22] @ ''foo'' @ [CHR 0x22])) \<and>
   proxy url_path_join fetch_not_found 7 8 example_unsupported (PortInt 9000) ''/foo'' =
     Inl (ValueError (''Unsupported rewrite: '' @ [CHR 0x22] @ ''foo'' @ [CHR 0x22]))"
proof -
  have config: "proxy_base example_unsupported = []" "rewrite example_unsupported \<noteq> ''/''"
    "rewrite example_unsupported \<noteq> []" "rewrite example_unsupported = ''foo''"
    by (simp_all add: example_unsupported_def example_handler_def)
  from unsupported_rewrite_fails [OF config(1,2,3), of url_path_join "PortInt 9000" "''/foo''"
      None fetch_not_found 7 8] config
  show ?thesis by simp
qed

text \<open>
  C8, as stated, fails: the backend WebSocket URI is built on \<open>ws://127.0.0.1\<close>, not on
  \<open>ws://localhost\<close>.
\<close>

theorem ws_open_not_localhost:
  "rq_url (pingable_ws_connect (ws_open example_handler (PortInt 9000) ''/ws''))
     = ''ws://127.0.0.1:9000/ws?x=1'' \<and>
   rq_url (pingable_ws_connect (ws_open example_handler (PortInt 9000) ''/ws''))
     \<noteq> ''ws://localhost:9000/ws?x=1''"
  by (simp add: pingable_ws_connect_def ws_open_def Let_def startswith_def str_nat_9000
      example_handler_def example_request_def)

text \<open>
  C8, amended. When a front-facing WebSocket is opened for port \<open>p\<close> and path \<open>q\<close>, the
  backend connection is made to \<open>ws://127.0.0.1:<p><q>[?query]\<close>, where \<open>q\<close> gets a
  leading slash if it has none, with a copy of the request's headers, which for a
  well-formed header object are the request's headers.
\<close>

theorem ws_open_uri:
  "rq_url (pingable_ws_connect (ws_open h port path)) =
     ''ws://127.0.0.1:'' @ str_port port @
     (if startswith path (CHR ''/'') then path else ''/'' @ path) @
     (if req_query (request h) \<noteq> [] then ''?'' @ req_query (request h) else []) \<and>
   rq_headers (pingable_ws_connect (ws_open h port path)) = hdr_copy (req_headers (request h)) \<and>
   (hdr_inv (req_headers (request h)) \<longrightarrow>
      rq_headers (pingable_ws_connect (ws_open h port path)) = req_headers (request h))"
  by (simp add: pingable_ws_connect_def ws_open_def Let_def hdr_copy_id)

lemma example_request_inv: "hdr_inv (req_headers (request example_handler))"
  by (simp add: example_handler_def example_request_def hdr_inv_def normalize_literals)

theorem ws_open_uri_witness:
  "hdr_inv (req_headers (request example_handler)) \<and>
   rq_url (pingable_ws_connect (ws_open example_handler (PortInt 9000) ''ws''))
     = ''ws://127.0.0.1:9000/ws?x=1'' \<and>
   rq_headers (pingable_ws_connect (ws_open example_handler (PortInt 9000) ''ws''))
     = [(''Upgrade'', [''WebSocket'']), (''Proxy-Connection'', [''keep-alive''])]"
proof -
  from ws_open_uri [of example_handler "PortInt 9000" "''ws''"] example_request_inv
  have "rq_url (pingable_ws_connect (ws_open example_handler (PortInt 9000) ''ws'')) =
      ''ws://127.0.0.1:'' @ str_port (PortInt 9000) @
      (if startswith ''ws'' (CHR ''/'') then ''ws'' else ''/'' @ ''ws'') @
      (if req_query (request example_handler) \<noteq> []
       then ''?'' @ req_query (request example_handler) else []) \<and>
    rq_headers (pingable_ws_connect (ws_open example_handler (PortInt 9000) ''ws''))
      = req_headers (request example_handler)"
    by blast
  moreover have "req_query (request example_handler) = ''x=1''"
    and "req_headers (request example_handler)
           = [(''Upgrade'', [''WebSocket'']), (''Proxy-Connection'', [''keep-alive''])]"
    by (simp_all add: example_handler_def example_request_def)
  ultimately show ?thesis
    using example_request_inv by (simp add: startswith_def str_nat_9000)
qed

end
